theory Spec2Isabelle
  imports Complex_Main "HOL-Library.AList"
begin

section \<open>Stock portfolio tracker: a shallow embedding of Portfolio\_tracker.py\<close>

text \<open>
  The program keeps one JSON-shaped document, the portfolio, in memory, mutates it in
  place, and writes it to \<^verbatim>\<open>portfolio.json\<close> after every successful add or remove.
  Prices come from an external source, one network call per lookup.

  Modelling decisions:
  \<^item> Prices and balances are floating-point numbers in the program. Here they are
    rational numbers with exact arithmetic. That is an idealisation: the rounding error
    of float sums and products, the way \<^verbatim>\<open>round(x, 2)\<close> picks a neighbour, overflow to
    infinity, a price that is NaN, and the \<^verbatim>\<open>OverflowError\<close> of multiplying a price by an
    integer too large for a float are all outside the model. The theorems below are
    therefore about which holdings, files and messages an operation touches and in which
    order. Where one of them names a balance or a table entry, it says from which holdings
    and lookups the program computes it; the digits are those of the idealisation. Only the
    percentage of a valuation row can leave the finite numbers in the model (a division
    by zero), and that field has the type \<open>np_float\<close> below.
  \<^item> A Python \<^verbatim>\<open>dict\<close> keeps insertion order; the \<open>stocks\<close> mapping is an
    association list, read with \<open>map_of\<close>, written with \<open>AList.update\<close> (in place
    when the key is present, appended otherwise) and \<open>AList.delete\<close>.
  \<^item> The price source is a parameter: what the \<open>t\<close>-th lookup of the run answers for a
    symbol. The world counts the lookups made so far, so two lookups of the same symbol
    may answer differently, as a live market does.
  \<^item> Everything the program prints, asks or writes is appended to a trace, so that
    "nothing is written" and "the failure is reported" are statements about the trace.
  \<^item> Text is \<open>string\<close> (bytes); upper-casing, lower-casing, stripping and the parsing
    of integers are modelled on the ASCII range.
  \<^item> \<^verbatim>\<open>json.dump\<close> and \<^verbatim>\<open>json.load\<close> are library code. The model has no JSON text: a
    file holds the document itself, so nothing is said here about what survives the
    conversion to text and back. Writing a file always succeeds.
  \<^item> The portfolio is a record, so a document of another shape (a missing key, a quantity
    that is not an integer) is outside the model; the program does not check the shape of
    what it loads.
\<close>

subsection \<open>Numbers\<close>

text \<open>\<^verbatim>\<open>round(x, 2)\<close>: to the nearest multiple of 0.01, ties to the even neighbour.\<close>

definition round_half_even :: "rat \<Rightarrow> int" where
  "round_half_even y =
     (let f = \<lfloor>y\<rfloor>; d = y - of_int f
      in if d < 1 / 2 then f
         else if 1 / 2 < d then f + 1
         else if even f then f else f + 1)"

definition round2 :: "rat \<Rightarrow> rat" where
  "round2 x = of_int (round_half_even (x * 100)) / 100"

lemma floor_rat_numeral_divide [simp]:
  "\<lfloor>numeral a / numeral b :: rat\<rfloor> = numeral a div numeral b"
  by (metis floor_divide_of_int_eq of_int_numeral)

lemma floor_rat_minus_numeral_divide [simp]:
  "\<lfloor>- (numeral a / numeral b) :: rat\<rfloor> = - numeral a div numeral b"
  by (metis divide_minus_left floor_divide_of_int_eq of_int_neg_numeral of_int_numeral)

text \<open>
  The current price is a numpy \<^verbatim>\<open>float64\<close> (the last element of a pandas column), and
  so is every value computed from it. Dividing such a value by zero does not raise: it
  yields an infinity, or NaN for \<^verbatim>\<open>0 / 0\<close>, and a runtime warning.
\<close>

datatype np_float = Finite rat | PosInf | NegInf | NaN

definition np_div :: "rat \<Rightarrow> rat \<Rightarrow> np_float" where
  "np_div a b =
     (if b = 0 then (if 0 < a then PosInf else if a < 0 then NegInf else NaN)
      else Finite (a / b))"

fun np_mul :: "np_float \<Rightarrow> rat \<Rightarrow> np_float" where
  "np_mul (Finite x) y = Finite (x * y)"
| "np_mul PosInf y = (if 0 < y then PosInf else if y < 0 then NegInf else NaN)"
| "np_mul NegInf y = (if 0 < y then NegInf else if y < 0 then PosInf else NaN)"
| "np_mul NaN y = NaN"

fun np_round2 :: "np_float \<Rightarrow> np_float" where
  "np_round2 (Finite x) = Finite (round2 x)"
| "np_round2 PosInf = PosInf"
| "np_round2 NegInf = NegInf"
| "np_round2 NaN = NaN"

subsection \<open>Text\<close>

definition upper_char :: "char \<Rightarrow> char" where
  "upper_char c =
     (case map_of (zip ''abcdefghijklmnopqrstuvwxyz'' ''ABCDEFGHIJKLMNOPQRSTUVWXYZ'') c of
        Some d \<Rightarrow> d
      | None \<Rightarrow> c)"

definition lower_char :: "char \<Rightarrow> char" where
  "lower_char c =
     (case map_of (zip ''ABCDEFGHIJKLMNOPQRSTUVWXYZ'' ''abcdefghijklmnopqrstuvwxyz'') c of
        Some d \<Rightarrow> d
      | None \<Rightarrow> c)"

definition upper :: "string \<Rightarrow> string" where
  "upper s = map upper_char s"

definition lower :: "string \<Rightarrow> string" where
  "lower s = map lower_char s"

text \<open>The ASCII whitespace: tab, line feed, vertical tab, form feed, carriage return,
  the four separators \<^verbatim>\<open>0x1C\<close> to \<^verbatim>\<open>0x1F\<close>, and the space.\<close>

definition is_space :: "char \<Rightarrow> bool" where
  "is_space c \<longleftrightarrow>
     c \<in> set [CHR 0x09, CHR 0x0A, CHR 0x0B, CHR 0x0C, CHR 0x0D,
               CHR 0x1C, CHR 0x1D, CHR 0x1E, CHR 0x1F, CHR 0x20]"

definition strip :: "string \<Rightarrow> string" where
  "strip s = rev (dropWhile is_space (rev (dropWhile is_space s)))"

definition is_digit :: "char \<Rightarrow> bool" where
  "is_digit c \<longleftrightarrow> c \<in> set ''0123456789''"

definition digit_value :: "char \<Rightarrow> nat" where
  "digit_value c = of_char c - 48"

text \<open>
  \<^verbatim>\<open>int(text)\<close> in base 10, for ASCII text. Whitespace around the number is dropped,
  where whitespace is what C calls so: tab, line feed, vertical tab, form feed, carriage
  return and space. The separators \<^verbatim>\<open>0x1C\<close> to \<^verbatim>\<open>0x1F\<close>, which \<^verbatim>\<open>str.strip\<close>
  removes, are not dropped here. Then one sign is allowed, then decimal digits, where a
  single underscore may stand between two digits. A number of more than 4300 digits is
  refused (the interpreter's default limit; leading zeros count, underscores do not).
  Every refusal is a \<^verbatim>\<open>ValueError\<close>, here \<open>None\<close>.
\<close>

definition is_c_space :: "char \<Rightarrow> bool" where
  "is_c_space c \<longleftrightarrow> c \<in> set [CHR 0x09, CHR 0x0A, CHR 0x0B, CHR 0x0C, CHR 0x0D, CHR 0x20]"

definition int_max_str_digits :: nat where
  "int_max_str_digits = 4300"

datatype scan = Start | AfterDigit | AfterUnderscore

fun py_digits :: "nat \<Rightarrow> scan \<Rightarrow> string \<Rightarrow> nat option" where
  "py_digits acc st [] = (if st = AfterDigit then Some acc else None)"
| "py_digits acc st (c # cs) =
     (if is_digit c then py_digits (10 * acc + digit_value c) AfterDigit cs
      else if c = CHR ''_'' \<and> st = AfterDigit then py_digits acc AfterUnderscore cs
      else None)"

definition py_number :: "string \<Rightarrow> nat option" where
  "py_number ds =
     (if int_max_str_digits < length (filter is_digit ds) then None
      else py_digits 0 Start ds)"

definition py_int :: "string \<Rightarrow> int option" where
  "py_int s =
     (case rev (dropWhile is_c_space (rev (dropWhile is_c_space s))) of
        [] \<Rightarrow> None
      | c # cs \<Rightarrow>
          if c = CHR ''-'' then map_option (\<lambda>n. - int n) (py_number cs)
          else if c = CHR ''+'' then map_option int (py_number cs)
          else map_option int (py_number (c # cs)))"

subsection \<open>The data model\<close>

record holding =
  quantity :: int
  purchase_price :: rat

record portfolio =
  stocks :: "(string \<times> holding) list"
  total_balance :: rat

text \<open>One line of the table that \<open>view_portfolio\<close> shows and exports.\<close>

record row =
  Stock :: string
  Quantity :: int
  Purchase_Price :: rat
  Current_Price :: rat
  Current_Value :: rat
  Profit_Loss :: rat
  Profit_Loss_Pct :: np_float

subsection \<open>The world: files, console, price source\<close>

datatype content = Json portfolio | Csv "row list"

datatype prompt = ExportPrompt | ChoicePrompt | SymbolPrompt | QuantityPrompt | RemovePrompt

datatype message =
    ErrorFetching string string  \<comment> \<open>Error fetching data for SYMBOL: EXCEPTION\<close>
  | FailedToFetch string  \<comment> \<open>Failed to fetch data for SYMBOL. Stock not added.\<close>
  | AlreadyExists string  \<comment> \<open>SYMBOL already exists in your portfolio. Updating quantity.\<close>
  | AddedShares int string rat  \<comment> \<open>Added N shares of SYMBOL at the current price of PRICE.\<close>
  | Removed string  \<comment> \<open>Removed SYMBOL from your portfolio.\<close>
  | NotInPortfolio string  \<comment> \<open>SYMBOL is not in your portfolio.\<close>
  | PortfolioEmpty  \<comment> \<open>Your portfolio is empty.\<close>
  | FetchingRealTime  \<comment> \<open>Fetching real-time stock data...\<close>
  | PortfolioPerformance  \<comment> \<open>Portfolio Performance:\<close>
  | Table "row list"  \<comment> \<open>the data frame\<close>
  | TotalValue rat  \<comment> \<open>Total Portfolio Value: BALANCE\<close>
  | Exported  \<comment> \<open>Portfolio exported to the CSV file.\<close>
  | Menu  \<comment> \<open>the title and the four numbered options\<close>
  | InvalidInput  \<comment> \<open>Invalid input. Please try again.\<close>
  | Goodbye  \<comment> \<open>Exiting the tracker. Goodbye!\<close>
  | InvalidChoice  \<comment> \<open>Invalid choice. Please select a valid option.\<close>

datatype event = Print message | Ask prompt | Write string

record world =
  files :: "string \<Rightarrow> content option"
  trace :: "event list"
  clock :: nat
  stdin :: "string list"

datatype yf_result = Close rat | Raises string

type_synonym source = "nat \<Rightarrow> string \<Rightarrow> yf_result"

datatype error = EOFError | JSONDecodeError

definition PORTFOLIO_FILE :: string where
  "PORTFOLIO_FILE = ''portfolio.json''"

definition CSV_FILE :: string where
  "CSV_FILE = ''portfolio_performance.csv''"

definition print :: "message \<Rightarrow> world \<Rightarrow> world" where
  "print m w = w\<lparr>trace := trace w @ [Print m]\<rparr>"

definition write_file :: "string \<Rightarrow> content \<Rightarrow> world \<Rightarrow> world" where
  "write_file path c w = w\<lparr>files := (files w)(path \<mapsto> c), trace := trace w @ [Write path]\<rparr>"

text \<open>\<^verbatim>\<open>input(prompt)\<close>: the prompt is shown, then a line is read; at end of input
  it raises \<^verbatim>\<open>EOFError\<close>, here \<open>None\<close>.\<close>

definition py_input :: "prompt \<Rightarrow> world \<Rightarrow> string option \<times> world" where
  "py_input pr w =
     (let w' = w\<lparr>trace := trace w @ [Ask pr]\<rparr>
      in case stdin w of
           [] \<Rightarrow> (None, w')
         | l # ls \<Rightarrow> (Some l, w'\<lparr>stdin := ls\<rparr>))"

subsection \<open>Portfolio store\<close>

text \<open>
  The file holds the document that \<^verbatim>\<open>json.dump\<close> was given, not its text. A file that
  is not a JSON document makes \<open>load_portfolio\<close> raise, and the program does not
  catch that.
\<close>

definition load_portfolio :: "world \<Rightarrow> error + portfolio" where
  "load_portfolio w =
     (case files w PORTFOLIO_FILE of
        Some (Json p) \<Rightarrow> Inr p
      | Some (Csv rows) \<Rightarrow> Inl JSONDecodeError
      | None \<Rightarrow> Inr \<lparr>stocks = [], total_balance = 0\<rparr>)"

definition save_portfolio :: "portfolio \<Rightarrow> world \<Rightarrow> world" where
  "save_portfolio p w = write_file PORTFOLIO_FILE (Json p) w"

subsection \<open>Price source\<close>

text \<open>
  \<open>fetch_stock_data\<close> catches every exception of the lookup, prints it, and returns
  \<^verbatim>\<open>None\<close>. Its callers test the result with \<^verbatim>\<open>if current_price\<close>, which is false
  for \<^verbatim>\<open>None\<close> and for a price of zero: the two branches \<open>None\<close> and \<open>Some 0\<close> of
  the callers below.
\<close>

definition fetch_stock_data :: "source \<Rightarrow> string \<Rightarrow> world \<Rightarrow> rat option \<times> world" where
  "fetch_stock_data src stock_symbol w =
     (let w' = w\<lparr>clock := Suc (clock w)\<rparr>
      in case src (clock w) stock_symbol of
           Close current_price \<Rightarrow> (Some current_price, w')
         | Raises e \<Rightarrow> (None, print (ErrorFetching stock_symbol e) w'))"

subsection \<open>Valuation\<close>

text \<open>The loop of \<open>update_total_balance\<close>, with the running sum \<open>bal\<close> as accumulator.\<close>

fun balance_loop :: "source \<Rightarrow> (string \<times> holding) list \<Rightarrow> rat \<Rightarrow> world \<Rightarrow> rat \<times> world" where
  "balance_loop src [] bal w = (bal, w)"
| "balance_loop src ((stock, details) # rest) bal w =
     (case fetch_stock_data src stock w of
        (current_price, w') \<Rightarrow>
          (case current_price of
             None \<Rightarrow> balance_loop src rest bal w'
           | Some c \<Rightarrow>
               if c \<noteq> 0 then balance_loop src rest (bal + of_int (quantity details) * c) w'
               else balance_loop src rest bal w'))"

definition update_total_balance :: "source \<Rightarrow> portfolio \<Rightarrow> world \<Rightarrow> portfolio \<times> world" where
  "update_total_balance src p w =
     (case balance_loop src (stocks p) 0 w of
        (bal, w') \<Rightarrow> (p\<lparr>total_balance := round2 bal\<rparr>, w'))"

text \<open>The body of the loop of \<open>view_portfolio\<close> after a successful lookup.\<close>

definition compute_row :: "string \<Rightarrow> holding \<Rightarrow> rat \<Rightarrow> row" where
  "compute_row stock details current_price =
     (let qty = quantity details;
          pp = purchase_price details;
          current_value = of_int qty * current_price;
          profit_loss = (current_price - pp) * of_int qty;
          profit_loss_percentage = np_mul (np_div (current_price - pp) pp) 100
      in \<lparr>Stock = stock,
          Quantity = qty,
          Purchase_Price = round2 pp,
          Current_Price = round2 current_price,
          Current_Value = round2 current_value,
          Profit_Loss = round2 profit_loss,
          Profit_Loss_Pct = np_round2 profit_loss_percentage\<rparr>)"

fun view_loop :: "source \<Rightarrow> (string \<times> holding) list \<Rightarrow> row list \<Rightarrow> world \<Rightarrow> row list \<times> world" where
  "view_loop src [] data w = (data, w)"
| "view_loop src ((stock, details) # rest) data w =
     (case fetch_stock_data src stock w of
        (current_price, w') \<Rightarrow>
          (case current_price of
             None \<Rightarrow> view_loop src rest data w'
           | Some c \<Rightarrow>
               if c = 0 then view_loop src rest data w'
               else view_loop src rest (data @ [compute_row stock details c]) w'))"

subsection \<open>Portfolio operations\<close>

definition add_stock :: "source \<Rightarrow> portfolio \<Rightarrow> string \<Rightarrow> int \<Rightarrow> world \<Rightarrow> portfolio \<times> world" where
  "add_stock src p symbol0 qty w =
     (let symbol = upper symbol0
      in case fetch_stock_data src symbol w of
           (current_price, w1) \<Rightarrow>
             (case current_price of
                None \<Rightarrow> (p, print (FailedToFetch symbol) w1)
              | Some c \<Rightarrow>
                  if c = 0 then (p, print (FailedToFetch symbol) w1)
                  else
                    (case (case map_of (stocks p) symbol of
                             Some h \<Rightarrow>
                               (p\<lparr>stocks :=
                                    AList.update symbol (h\<lparr>quantity := quantity h + qty\<rparr>) (stocks p)\<rparr>,
                                print (AlreadyExists symbol) w1)
                           | None \<Rightarrow>
                               (p\<lparr>stocks :=
                                    AList.update symbol
                                      \<lparr>quantity = qty, purchase_price = c\<rparr> (stocks p)\<rparr>,
                                w1)) of
                       (p1, w2) \<Rightarrow>
                         (case update_total_balance src p1 (print (AddedShares qty symbol (round2 c)) w2) of
                            (p2, w3) \<Rightarrow> (p2, save_portfolio p2 w3)))))"

definition remove_stock :: "source \<Rightarrow> portfolio \<Rightarrow> string \<Rightarrow> world \<Rightarrow> portfolio \<times> world" where
  "remove_stock src p symbol0 w =
     (let symbol = upper symbol0
      in if map_of (stocks p) symbol \<noteq> None then
           (case update_total_balance src
                   (p\<lparr>stocks := AList.delete symbol (stocks p)\<rparr>) (print (Removed symbol) w) of
              (p2, w2) \<Rightarrow> (p2, save_portfolio p2 w2))
         else (p, print (NotInPortfolio symbol) w))"

text \<open>
  \<open>view_portfolio\<close> reads the answer to the export question from the console, so it
  can end in \<^verbatim>\<open>EOFError\<close>; the first component of its result says whether it did.
\<close>

definition view_portfolio :: "source \<Rightarrow> portfolio \<Rightarrow> world \<Rightarrow> error option \<times> portfolio \<times> world" where
  "view_portfolio src p w =
     (if stocks p = [] then (None, p, print PortfolioEmpty w)
      else
        (case view_loop src (stocks p) [] (print FetchingRealTime w) of
           (data, w1) \<Rightarrow>
             (case py_input ExportPrompt
                     (print (TotalValue (round2 (total_balance p)))
                        (print (Table data) (print PortfolioPerformance w1))) of
                (None, w2) \<Rightarrow> (Some EOFError, p, w2)
              | (Some answer, w2) \<Rightarrow>
                  if lower (strip answer) = ''yes''
                  then (None, p, print Exported (write_file CSV_FILE (Csv data) w2))
                  else (None, p, w2))))"

subsection \<open>Interactive shell\<close>

datatype outcome = Continue | Break | Raised error

text \<open>One pass through the body of the \<^verbatim>\<open>while True\<close> loop of \<open>main\<close>.\<close>

definition menu_pass :: "source \<Rightarrow> portfolio \<Rightarrow> world \<Rightarrow> outcome \<times> portfolio \<times> world" where
  "menu_pass src p w =
     (case py_input ChoicePrompt (print Menu w) of
        (None, w1) \<Rightarrow> (Raised EOFError, p, w1)
      | (Some line, w1) \<Rightarrow>
          (let choice = strip line
           in if choice = ''1'' then
                (case py_input SymbolPrompt w1 of
                   (None, w2) \<Rightarrow> (Raised EOFError, p, w2)
                 | (Some l2, w2) \<Rightarrow>
                     (let symbol = upper (strip l2)
                      in case py_input QuantityPrompt w2 of
                           (None, w3) \<Rightarrow> (Raised EOFError, p, w3)
                         | (Some l3, w3) \<Rightarrow>
                             (case py_int l3 of
                                None \<Rightarrow> (Continue, p, print InvalidInput w3)
                              | Some qty \<Rightarrow>
                                  (case add_stock src p symbol qty w3 of
                                     (p', w4) \<Rightarrow> (Continue, p', w4)))))
              else if choice = ''2'' then
                (case py_input RemovePrompt w1 of
                   (None, w2) \<Rightarrow> (Raised EOFError, p, w2)
                 | (Some l2, w2) \<Rightarrow>
                     (case remove_stock src p (upper (strip l2)) w2 of
                        (p', w3) \<Rightarrow> (Continue, p', w3)))
              else if choice = ''3'' then
                (case view_portfolio src p w1 of
                   (None, p', w2) \<Rightarrow> (Continue, p', w2)
                 | (Some e, p', w2) \<Rightarrow> (Raised e, p', w2))
              else if choice = ''4'' then (Break, p, print Goodbye w1)
              else (Continue, p, print InvalidChoice w1)))"

subsection \<open>What each step leaves alone\<close>

lemma print_fields [simp]:
  "files (print m w) = files w"
  "stdin (print m w) = stdin w"
  "clock (print m w) = clock w"
  "trace (print m w) = trace w @ [Print m]"
  by (simp_all add: print_def)

lemma write_file_fields [simp]:
  "files (write_file path c w) = (files w)(path \<mapsto> c)"
  "stdin (write_file path c w) = stdin w"
  "clock (write_file path c w) = clock w"
  "trace (write_file path c w) = trace w @ [Write path]"
  by (simp_all add: write_file_def)

lemma fetch_Close:
  "src (clock w) s = Close c \<Longrightarrow> fetch_stock_data src s w = (Some c, w\<lparr>clock := Suc (clock w)\<rparr>)"
  by (simp add: fetch_stock_data_def)

lemma fetch_Raises:
  "src (clock w) s = Raises e \<Longrightarrow>
   fetch_stock_data src s w = (None, print (ErrorFetching s e) (w\<lparr>clock := Suc (clock w)\<rparr>))"
  by (simp add: fetch_stock_data_def)

lemma fetch_frame:
  "fetch_stock_data src s w = (r, w') \<Longrightarrow>
   files w' = files w \<and> stdin w' = stdin w \<and> clock w' = Suc (clock w)"
  by (auto simp: fetch_stock_data_def Let_def split: yf_result.splits)

lemma balance_loop_frame:
  "balance_loop src items bal w = (b, w') \<Longrightarrow>
   files w' = files w \<and> stdin w' = stdin w \<and> clock w' = clock w + length items"
proof (induction items arbitrary: bal w)
  case Nil
  then show ?case by simp
next
  case (Cons a items)
  obtain s h where a: "a = (s, h)" by (cases a)
  obtain r w1 where f: "fetch_stock_data src s w = (r, w1)" by (cases "fetch_stock_data src s w")
  from Cons.prems a f obtain bal' where "balance_loop src items bal' w1 = (b, w')"
    by (auto split: option.splits if_splits)
  from Cons.IH[OF this] fetch_frame[OF f] show ?case by simp
qed

lemma view_loop_frame:
  "view_loop src items data w = (d, w') \<Longrightarrow>
   files w' = files w \<and> stdin w' = stdin w \<and> clock w' = clock w + length items"
proof (induction items arbitrary: data w)
  case Nil
  then show ?case by simp
next
  case (Cons a items)
  obtain s h where a: "a = (s, h)" by (cases a)
  obtain r w1 where f: "fetch_stock_data src s w = (r, w1)" by (cases "fetch_stock_data src s w")
  from Cons.prems a f obtain data' where "view_loop src items data' w1 = (d, w')"
    by (auto split: option.splits if_splits)
  from Cons.IH[OF this] fetch_frame[OF f] show ?case by simp
qed

lemma update_total_balance_frame:
  "update_total_balance src p w = (p', w') \<Longrightarrow>
   stocks p' = stocks p \<and> files w' = files w \<and> stdin w' = stdin w
   \<and> clock w' = clock w + length (stocks p)"
  by (auto simp: update_total_balance_def split: prod.splits dest: balance_loop_frame)

lemma add_stock_stdin: "add_stock src p s q w = (p', w') \<Longrightarrow> stdin w' = stdin w"
  by (auto simp: add_stock_def Let_def save_portfolio_def
      split: prod.splits option.splits if_splits
      dest!: fetch_frame update_total_balance_frame)

lemma remove_stock_stdin: "remove_stock src p s w = (p', w') \<Longrightarrow> stdin w' = stdin w"
  by (auto simp: remove_stock_def Let_def save_portfolio_def
      split: prod.splits option.splits if_splits
      dest!: update_total_balance_frame)

lemma py_input_stdin:
  "py_input pr w = (Some l, w') \<Longrightarrow> stdin w = l # stdin w'"
  by (auto simp: py_input_def Let_def split: list.splits)

lemma py_input_stdin_le:
  "py_input pr w = (r, w') \<Longrightarrow> length (stdin w') \<le> length (stdin w)"
  by (auto simp: py_input_def Let_def split: list.splits)

lemma view_portfolio_stdin:
  "view_portfolio src p w = (r, p', w') \<Longrightarrow> length (stdin w') \<le> length (stdin w)"
  by (auto simp: view_portfolio_def Let_def
      split: prod.splits option.splits if_splits
      dest!: view_loop_frame py_input_stdin_le)

lemma menu_pass_consumes:
  "menu_pass src p w = (Continue, p', w') \<Longrightarrow> length (stdin w') < length (stdin w)"
  by (auto simp: menu_pass_def Let_def
      split: prod.splits option.splits if_splits
      dest!: py_input_stdin add_stock_stdin remove_stock_stdin view_portfolio_stdin)

text \<open>
  The loop of \<open>main\<close>. Every pass that continues has read at least one line, so the
  loop ends on every finite input: with \<^verbatim>\<open>break\<close> on choice 4, or with
  \<^verbatim>\<open>EOFError\<close> when the input runs out.
\<close>

function main_loop :: "source \<Rightarrow> portfolio \<Rightarrow> world \<Rightarrow> error option \<times> portfolio \<times> world" where
  "main_loop src p w =
     (case menu_pass src p w of
        (Continue, p', w') \<Rightarrow> main_loop src p' w'
      | (Break, p', w') \<Rightarrow> (None, p', w')
      | (Raised e, p', w') \<Rightarrow> (Some e, p', w'))"
  by pat_completeness auto
termination
  by (relation "measure (\<lambda>(src, p, w). length (stdin w))") (auto dest: menu_pass_consumes [OF sym])

declare main_loop.simps [simp del]

definition main :: "source \<Rightarrow> world \<Rightarrow> error option \<times> world" where
  "main src w =
     (case load_portfolio w of
        Inl e \<Rightarrow> (Some e, w)
      | Inr p \<Rightarrow> (case main_loop src p w of (r, p', w') \<Rightarrow> (r, w')))"

subsection \<open>Closed forms of the two loops\<close>

text \<open>
  What the spec says the balance is, before rounding: the sum over the holdings of
  quantity times the price answered by the lookup made for that holding (the \<open>t\<close>-th
  of the run for the first holding, the next one for the second, and so on), and zero
  for a holding whose lookup fails.
\<close>

fun holdings_value :: "source \<Rightarrow> nat \<Rightarrow> (string \<times> holding) list \<Rightarrow> rat" where
  "holdings_value src t [] = 0"
| "holdings_value src t ((s, h) # rest) =
     (case src t s of Close c \<Rightarrow> of_int (quantity h) * c | Raises e \<Rightarrow> 0)
     + holdings_value src (Suc t) rest"

text \<open>The error lines that a series of lookups prints, starting with lookup \<open>t\<close>.\<close>

fun fetch_errors :: "source \<Rightarrow> nat \<Rightarrow> string list \<Rightarrow> event list" where
  "fetch_errors src t [] = []"
| "fetch_errors src t (s # ss) =
     (case src t s of Close c \<Rightarrow> [] | Raises e \<Rightarrow> [Print (ErrorFetching s e)])
     @ fetch_errors src (Suc t) ss"

text \<open>The rows of the table: one per holding whose lookup answers a price that is not zero.\<close>

fun valued_rows :: "source \<Rightarrow> nat \<Rightarrow> (string \<times> holding) list \<Rightarrow> row list" where
  "valued_rows src t [] = []"
| "valued_rows src t ((s, h) # rest) =
     (case src t s of
        Close c \<Rightarrow> if c = 0 then [] else [compute_row s h c]
      | Raises e \<Rightarrow> [])
     @ valued_rows src (Suc t) rest"

text \<open>The world after one lookup for each of the symbols \<open>ss\<close>.\<close>

definition after_fetches :: "source \<Rightarrow> string list \<Rightarrow> world \<Rightarrow> world" where
  "after_fetches src ss w =
     w\<lparr>clock := clock w + length ss, trace := trace w @ fetch_errors src (clock w) ss\<rparr>"

lemma after_fetches_fields [simp]:
  "files (after_fetches src ss w) = files w"
  "stdin (after_fetches src ss w) = stdin w"
  "clock (after_fetches src ss w) = clock w + length ss"
  "trace (after_fetches src ss w) = trace w @ fetch_errors src (clock w) ss"
  by (simp_all add: after_fetches_def)

lemma after_fetches_Nil [simp]: "after_fetches src [] w = w"
  by (simp add: after_fetches_def)

lemma after_fetches_Cons:
  "after_fetches src (s # ss) w = after_fetches src ss (snd (fetch_stock_data src s w))"
  by (cases "src (clock w) s")
     (simp_all add: after_fetches_def fetch_stock_data_def Let_def print_def)

lemma balance_loop_eq:
  "balance_loop src items bal w =
     (bal + holdings_value src (clock w) items, after_fetches src (map fst items) w)"
proof (induction items arbitrary: bal w)
  case Nil
  show ?case by simp
next
  case (Cons a items)
  obtain s h where a: "a = (s, h)" by (cases a)
  show ?case
  proof (cases "src (clock w) s")
    case (Close c)
    then show ?thesis
      by (simp add: a Cons.IH after_fetches_Cons fetch_Close)
  next
    case (Raises e)
    then show ?thesis
      by (simp add: a Cons.IH after_fetches_Cons fetch_Raises)
  qed
qed

lemma view_loop_eq:
  "view_loop src items data w =
     (data @ valued_rows src (clock w) items, after_fetches src (map fst items) w)"
proof (induction items arbitrary: data w)
  case Nil
  show ?case by simp
next
  case (Cons a items)
  obtain s h where a: "a = (s, h)" by (cases a)
  show ?case
  proof (cases "src (clock w) s")
    case (Close c)
    then show ?thesis
      by (simp add: a Cons.IH after_fetches_Cons fetch_Close)
  next
    case (Raises e)
    then show ?thesis
      by (simp add: a Cons.IH after_fetches_Cons fetch_Raises)
  qed
qed

lemma update_total_balance_eq:
  "update_total_balance src p w =
     (p\<lparr>total_balance := round2 (holdings_value src (clock w) (stocks p))\<rparr>,
      after_fetches src (map fst (stocks p)) w)"
  by (simp add: update_total_balance_def balance_loop_eq)

subsection \<open>The three outcomes of \<open>add_stock\<close>\<close>

lemma add_stock_eq_fail:
  assumes "src (clock w) (upper symbol) = Raises e"
  shows "add_stock src p symbol qty w =
     (p, w\<lparr>clock := Suc (clock w),
           trace := trace w @ [Print (ErrorFetching (upper symbol) e),
                               Print (FailedToFetch (upper symbol))]\<rparr>)"
  using assms by (simp add: add_stock_def Let_def fetch_Raises print_def)

lemma add_stock_eq_zero:
  assumes "src (clock w) (upper symbol) = Close 0"
  shows "add_stock src p symbol qty w =
     (p, w\<lparr>clock := Suc (clock w),
           trace := trace w @ [Print (FailedToFetch (upper symbol))]\<rparr>)"
  using assms by (simp add: add_stock_def Let_def fetch_Close print_def)

text \<open>The holdings after a successful add of \<open>qty\<close> shares of \<open>symbol\<close> at price \<open>c\<close>.\<close>

definition added :: "portfolio \<Rightarrow> string \<Rightarrow> int \<Rightarrow> rat \<Rightarrow> (string \<times> holding) list" where
  "added p symbol qty c =
     (case map_of (stocks p) symbol of
        Some h \<Rightarrow> AList.update symbol (h\<lparr>quantity := quantity h + qty\<rparr>) (stocks p)
      | None \<Rightarrow> stocks p @ [(symbol, \<lparr>quantity = qty, purchase_price = c\<rparr>)])"

lemma update_absent:
  "map_of al k = None \<Longrightarrow> AList.update k v al = al @ [(k, v)]"
  by (induction al) (auto split: if_splits)

lemma add_stock_eq_ok:
  assumes "src (clock w) (upper symbol) = Close c" and "c \<noteq> 0"
  shows "fst (add_stock src p symbol qty w) =
           \<lparr>stocks = added p (upper symbol) qty c,
            total_balance = round2 (holdings_value src (Suc (clock w)) (added p (upper symbol) qty c))\<rparr>"
    and "files (snd (add_stock src p symbol qty w)) =
           (files w)(PORTFOLIO_FILE \<mapsto> Json (fst (add_stock src p symbol qty w)))"
    and "trace (snd (add_stock src p symbol qty w)) =
           trace w
           @ (if map_of (stocks p) (upper symbol) = None then []
              else [Print (AlreadyExists (upper symbol))])
           @ [Print (AddedShares qty (upper symbol) (round2 c))]
           @ fetch_errors src (Suc (clock w)) (map fst (added p (upper symbol) qty c))
           @ [Write PORTFOLIO_FILE]"
  using assms
  by (auto simp: add_stock_def Let_def fetch_Close update_total_balance_eq save_portfolio_def
      added_def update_absent split: option.splits)

lemma holding_quantity_update:
  "h\<lparr>quantity := q\<rparr> = \<lparr>quantity = q, purchase_price = purchase_price h\<rparr>"
  by (cases h) simp

subsection \<open>The two outcomes of \<open>remove_stock\<close>\<close>





subsection \<open>A lookup without a usable price is skipped\<close>

lemma balance_loop_skip:
  assumes "src (clock w) s = Close 0 \<or> src (clock w) s = Raises e"
  shows "fst (balance_loop src ((s, h) # rest) bal w) =
         fst (balance_loop src rest bal (w\<lparr>clock := Suc (clock w)\<rparr>))"
  using assms by (auto simp: balance_loop_eq)

lemma view_loop_skip:
  assumes "src (clock w) s = Close 0 \<or> src (clock w) s = Raises e"
  shows "fst (view_loop src ((s, h) # rest) data w) =
         fst (view_loop src rest data (w\<lparr>clock := Suc (clock w)\<rparr>))"
  using assms by (auto simp: view_loop_eq)

subsection \<open>What \<open>view_portfolio\<close> does\<close>

lemma fetch_errors_no_write: "count_list (fetch_errors src t ss) (Write path) = 0"
  by (induction ss arbitrary: t) (auto split: yf_result.splits)

text \<open>What the answer to the export question adds to the trace.\<close>

definition export_events :: "string list \<Rightarrow> event list" where
  "export_events ls =
     (case ls of
        [] \<Rightarrow> []
      | answer # _ \<Rightarrow>
          if lower (strip answer) = ''yes'' then [Write CSV_FILE, Print Exported] else [])"

lemma paths_differ: "CSV_FILE \<noteq> PORTFOLIO_FILE"
  by (simp add: CSV_FILE_def PORTFOLIO_FILE_def)

lemma view_portfolio_empty:
  "stocks p = [] \<Longrightarrow>
   view_portfolio src p w = (None, p, w\<lparr>trace := trace w @ [Print PortfolioEmpty]\<rparr>)"
  by (simp add: view_portfolio_def print_def)

lemma view_portfolio_nonempty:
  assumes "stocks p \<noteq> []"
  shows "fst (snd (view_portfolio src p w)) = p"
    and "files (snd (snd (view_portfolio src p w))) PORTFOLIO_FILE = files w PORTFOLIO_FILE"
    and "trace (snd (snd (view_portfolio src p w))) =
           trace w @ Print FetchingRealTime # fetch_errors src (clock w) (map fst (stocks p))
           @ [Print PortfolioPerformance,
              Print (Table (valued_rows src (clock w) (stocks p))),
              Print (TotalValue (round2 (total_balance p))),
              Ask ExportPrompt]
           @ export_events (stdin w)"
  using assms paths_differ
  by (auto simp: view_portfolio_def view_loop_eq py_input_def Let_def export_events_def
      split: list.splits)

subsection \<open>Purchase prices\<close>







subsection \<open>The add branch of the menu\<close>

text \<open>
  The integers that convert to a float64. Python rounds the integer to 53 bits and
  raises \<^verbatim>\<open>OverflowError\<close> when the result is \<open>2 ^ 1024\<close> or more; the recomputation of
  the balance multiplies every quantity by a price and so makes this conversion. The
  model has no such exception, so a statement about what an operation returns after the
  recomputation is made for portfolios whose quantities all convert.
\<close>

definition fits_float :: "int \<Rightarrow> bool" where
  "fits_float n \<longleftrightarrow> \<bar>n\<bar> < 2 ^ 1024 - 2 ^ 970"

definition floatable :: "portfolio \<Rightarrow> bool" where
  "floatable p = list_all (\<lambda>(s, h). fits_float (quantity h)) (stocks p)"

text \<open>The world in which the shell has asked for choice, symbol and quantity and read
  the three answers.\<close>

definition asked_to_add :: "world \<Rightarrow> world" where
  "asked_to_add w =
     w\<lparr>trace := trace w @ [Print Menu, Ask ChoicePrompt, Ask SymbolPrompt, Ask QuantityPrompt],
       stdin := drop 3 (stdin w)\<rparr>"

subsection \<open>Sample inputs\<close>

text \<open>A world with no files, nothing printed, no lookup made and nothing typed.\<close>

definition quiet :: world where
  "quiet = \<lparr>files = Map.empty, trace = [], clock = 0, stdin = []\<rparr>"

text \<open>A source that fails on every lookup.\<close>

definition no_data :: source where
  "no_data = (\<lambda>t s. Raises ''no data'')"

definition msft :: portfolio where
  "msft = \<lparr>stocks = [(''MSFT'', \<lparr>quantity = 2, purchase_price = 300\<rparr>)], total_balance = 600\<rparr>"

text \<open>A source that answers 100 to the first two lookups of a run and 110 afterwards.\<close>

definition rising :: source where
  "rising = (\<lambda>t s. if t < 2 then Close 100 else Close 110)"

definition nothing :: portfolio where
  "nothing = \<lparr>stocks = [], total_balance = 0\<rparr>"

lemma first_add:
  "add_stock rising nothing ''AAPL'' 5 quiet =
     (\<lparr>stocks = [(''AAPL'', \<lparr>quantity = 5, purchase_price = 100\<rparr>)], total_balance = 500\<rparr>,
      \<lparr>files = [PORTFOLIO_FILE \<mapsto> Json \<lparr>stocks = [(''AAPL'', \<lparr>quantity = 5, purchase_price = 100\<rparr>)], total_balance = 500\<rparr>],
       trace = [Print (AddedShares 5 ''AAPL'' 100), Write PORTFOLIO_FILE], clock = 2, stdin = []\<rparr>)"
  by (simp add: add_stock_def Let_def fetch_stock_data_def update_total_balance_def
      save_portfolio_def write_file_def print_def rising_def nothing_def quiet_def
      upper_def upper_char_def round2_def round_half_even_def)


text \<open>Two holdings, with a balance of 1100 recorded at some earlier moment.\<close>

definition pair :: portfolio where
  "pair = \<lparr>stocks = [(''AAPL'', \<lparr>quantity = 5, purchase_price = 100\<rparr>),
                      (''MSFT'', \<lparr>quantity = 2, purchase_price = 300\<rparr>)],
           total_balance = 1100\<rparr>"

text \<open>A source that answers 110 to every lookup.\<close>

definition flat :: source where
  "flat = (\<lambda>t s. Close 110)"

lemmas sample_defs =
  quiet_def no_data_def msft_def rising_def nothing_def pair_def flat_def
  upper_def upper_char_def round2_def round_half_even_def Let_def

lemmas run_defs =
  add_stock_def remove_stock_def update_total_balance_def fetch_stock_data_def
  save_portfolio_def write_file_def print_def



text \<open>A source that quotes MSFT at zero.\<close>

definition halted :: source where
  "halted = (\<lambda>t s. if s = ''MSFT'' then Close 0 else Close 110)"

lemmas loop_defs = fetch_stock_data_def print_def compute_row_def np_div_def

lemma add_msft_halted:
  "add_stock halted pair ''msft'' 4 quiet =
     (pair, quiet\<lparr>clock := 1, trace := [Print (FailedToFetch ''MSFT'')]\<rparr>)"
  by (simp add: run_defs sample_defs halted_def)

lemma balance_halted:
  "balance_loop halted
     [(''MSFT'', \<lparr>quantity = 2, purchase_price = 300\<rparr>),
      (''AAPL'', \<lparr>quantity = 5, purchase_price = 100\<rparr>)] 0 quiet =
     (550, quiet\<lparr>clock := 2\<rparr>)"
  by (simp add: loop_defs sample_defs halted_def)

lemma view_halted:
  "view_loop halted
     [(''MSFT'', \<lparr>quantity = 2, purchase_price = 300\<rparr>),
      (''AAPL'', \<lparr>quantity = 5, purchase_price = 100\<rparr>)] [] quiet =
     ([\<lparr>Stock = ''AAPL'', Quantity = 5, Purchase_Price = 100, Current_Price = 110,
        Current_Value = 550, Profit_Loss = 50, Profit_Loss_Pct = Finite 10\<rparr>],
      quiet\<lparr>clock := 2\<rparr>)"
  by (simp add: loop_defs sample_defs halted_def)

text \<open>A fresh world in which the lines \<open>ls\<close> are waiting on the console.\<close>

definition typed :: "string list \<Rightarrow> world" where
  "typed ls = \<lparr>files = Map.empty, trace = [], clock = 0, stdin = ls\<rparr>"



lemmas text_defs =
  upper_def upper_char_def lower_def lower_char_def strip_def is_space_def
  py_int_def py_number_def int_max_str_digits_def is_c_space_def is_digit_def digit_value_def

lemma view_pair:
  "view_portfolio flat pair (typed [''no'']) =
     (None, pair,
      \<lparr>files = Map.empty,
       trace = [Print FetchingRealTime, Print PortfolioPerformance,
                Print (Table
                  [\<lparr>Stock = ''AAPL'', Quantity = 5, Purchase_Price = 100, Current_Price = 110,
                    Current_Value = 550, Profit_Loss = 50, Profit_Loss_Pct = Finite 10\<rparr>,
                   \<lparr>Stock = ''MSFT'', Quantity = 2, Purchase_Price = 300, Current_Price = 110,
                    Current_Value = 220, Profit_Loss = - 380,
                    Profit_Loss_Pct = Finite (- (6333 / 100))\<rparr>]),
                Print (TotalValue 1100), Ask ExportPrompt],
       clock = 2, stdin = []\<rparr>)"
  by (simp add: view_portfolio_def py_input_def loop_defs sample_defs typed_def
      lower_def lower_char_def strip_def is_space_def)


lemma pass_add_negative:
  "menu_pass flat nothing (typed [''1'', ''aapl'', ''-5'', ''4'']) =
     (Continue,
      \<lparr>stocks = [(''AAPL'', \<lparr>quantity = - 5, purchase_price = 110\<rparr>)], total_balance = - 550\<rparr>,
      \<lparr>files = [PORTFOLIO_FILE \<mapsto>
                 Json \<lparr>stocks = [(''AAPL'', \<lparr>quantity = - 5, purchase_price = 110\<rparr>)],
                       total_balance = - 550\<rparr>],
       trace = [Print Menu, Ask ChoicePrompt, Ask SymbolPrompt, Ask QuantityPrompt,
                Print (AddedShares (- 5) ''AAPL'' 110), Write PORTFOLIO_FILE],
       clock = 2, stdin = [''4'']\<rparr>)"
  by (simp add: menu_pass_def py_input_def run_defs sample_defs typed_def text_defs)

lemma pass_exit:
  "stdin w = [''4''] \<Longrightarrow>
   menu_pass src p w =
     (Break, p, w\<lparr>trace := trace w @ [Print Menu, Ask ChoicePrompt, Print Goodbye], stdin := []\<rparr>)"
  by (simp add: menu_pass_def py_input_def print_def text_defs)

section \<open>Properties\<close>

subsection \<open>Adding a stock\<close>

text \<open>
  C2. When the lookup of the price fails during \<open>add_stock\<close>, the portfolio is returned
  as it was, no file is touched, and the only things the operation does are the error line
  of the lookup and the line "Failed to fetch data ... Stock not added.": nothing is
  written.
\<close>

theorem add_stock_fetch_failure:
  assumes "src (clock w) (upper symbol) = Raises e"
  shows "fst (add_stock src p symbol qty w) = p
       \<and> files (snd (add_stock src p symbol qty w)) = files w
       \<and> trace (snd (add_stock src p symbol qty w)) =
           trace w @ [Print (ErrorFetching (upper symbol) e), Print (FailedToFetch (upper symbol))]"
  using assms by (simp add: add_stock_eq_fail)

theorem add_stock_fetch_failure_witness:
  "no_data (clock quiet) (upper ''aapl'') = Raises ''no data''
   \<and> fst (add_stock no_data msft ''aapl'' 5 quiet) = msft
   \<and> files (snd (add_stock no_data msft ''aapl'' 5 quiet)) = Map.empty
   \<and> trace (snd (add_stock no_data msft ''aapl'' 5 quiet)) =
       [Print (ErrorFetching ''AAPL'' ''no data''), Print (FailedToFetch ''AAPL'')]"
  using add_stock_fetch_failure [of no_data quiet "''aapl''" "''no data''" msft 5]
  by (simp add: no_data_def quiet_def upper_def upper_char_def)

text \<open>
  C4. After a successful lookup at a price that is not zero: if the symbol is already
  held, its entry keeps its place and its purchase price and its quantity grows by the
  added amount, and no entry is added; if it is not held, one entry is appended, with the
  added quantity and the price just fetched. The sample run is the one of the spec: 5
  shares of AAPL at 100, then 3 more at 110, give one holding of 8 shares bought at 100.
\<close>

theorem add_stock_accumulates:
  assumes "src (clock w) (upper symbol) = Close c" and "c \<noteq> 0"
  shows "case map_of (stocks p) (upper symbol) of
           Some h \<Rightarrow>
             stocks (fst (add_stock src p symbol qty w)) =
               AList.update (upper symbol)
                 \<lparr>quantity = quantity h + qty, purchase_price = purchase_price h\<rparr> (stocks p)
             \<and> map fst (stocks (fst (add_stock src p symbol qty w))) = map fst (stocks p)
             \<and> map_of (stocks (fst (add_stock src p symbol qty w))) (upper symbol) =
                 Some \<lparr>quantity = quantity h + qty, purchase_price = purchase_price h\<rparr>
         | None \<Rightarrow>
             stocks (fst (add_stock src p symbol qty w)) =
               stocks p @ [(upper symbol, \<lparr>quantity = qty, purchase_price = c\<rparr>)]"
proof (cases "map_of (stocks p) (upper symbol)")
  case None
  with assms show ?thesis
    by (simp add: add_stock_eq_ok(1) added_def)
next
  case (Some h)
  then have "upper symbol \<in> set (map fst (stocks p))"
    by (metis domI dom_map_of_conv_image_fst set_map)
  with Some assms show ?thesis
    by (simp add: add_stock_eq_ok(1) added_def AList.update_keys AList.update_conv'
        holding_quantity_update del: set_map)
qed

theorem add_stock_accumulates_witness:
  "rising (clock quiet) (upper ''AAPL'') = Close 100
   \<and> rising (clock (snd (add_stock rising nothing ''AAPL'' 5 quiet))) (upper ''AAPL'') = Close 110
   \<and> stocks (fst (add_stock rising nothing ''AAPL'' 5 quiet)) =
       [(''AAPL'', \<lparr>quantity = 5, purchase_price = 100\<rparr>)]
   \<and> stocks (fst (add_stock rising (fst (add_stock rising nothing ''AAPL'' 5 quiet)) ''AAPL'' 3
                    (snd (add_stock rising nothing ''AAPL'' 5 quiet)))) =
       [(''AAPL'', \<lparr>quantity = 8, purchase_price = 100\<rparr>)]"
proof -
  let ?r1 = "add_stock rising nothing ''AAPL'' 5 quiet"
  have h1: "rising (clock quiet) (upper ''AAPL'') = Close 100"
    by (simp add: rising_def quiet_def)
  have h2: "rising (clock (snd ?r1)) (upper ''AAPL'') = Close 110"
    unfolding first_add by (simp add: rising_def)
  have n: "(100::rat) \<noteq> 0" "(110::rat) \<noteq> 0"
    by simp_all
  have u: "upper ''AAPL'' = ''AAPL''"
    by (simp add: upper_def upper_char_def)
  have sn: "stocks nothing = []"
    by (simp add: nothing_def)
  show ?thesis
    using add_stock_accumulates [of rising quiet "''AAPL''" 100 nothing 5, OF h1 n(1)]
      add_stock_accumulates [of rising "snd ?r1" "''AAPL''" 110 "fst ?r1" 3, OF h2 n(2)]
    by (simp add: h1 [unfolded u] h2 [unfolded u] u sn)
qed

subsection \<open>Removing a stock\<close>




subsection \<open>A price of zero\<close>

text \<open>
  C10. A lookup that answers a price of zero and a lookup that fails are handled alike.
  \<open>add_stock\<close> returns the portfolio unchanged, touches no file, writes nothing and ends
  with "Failed to fetch data ..."; the loop of \<open>update_total_balance\<close> goes on to the
  next holding with the running sum unchanged; the loop of \<open>view_portfolio\<close> goes on
  to the next holding with no row added.
\<close>

theorem zero_price_is_failure:
  assumes "src (clock w) s = Close 0 \<or> src (clock w) s = Raises e"
  shows "(upper symbol = s \<longrightarrow>
            fst (add_stock src p symbol qty w) = p
            \<and> files (snd (add_stock src p symbol qty w)) = files w
            \<and> last (trace (snd (add_stock src p symbol qty w))) = Print (FailedToFetch s)
            \<and> count_list (trace (snd (add_stock src p symbol qty w))) (Write PORTFOLIO_FILE) =
                count_list (trace w) (Write PORTFOLIO_FILE))
       \<and> fst (balance_loop src ((s, h) # rest) bal w) =
           fst (balance_loop src rest bal (w\<lparr>clock := Suc (clock w)\<rparr>))
       \<and> fst (view_loop src ((s, h) # rest) data w) =
           fst (view_loop src rest data (w\<lparr>clock := Suc (clock w)\<rparr>))"
  using assms balance_loop_skip [of src w s e h rest bal] view_loop_skip [of src w s e h rest data]
  by (auto simp: add_stock_eq_zero add_stock_eq_fail)


theorem zero_price_is_failure_witness:
  "halted (clock quiet) ''MSFT'' = Close 0
   \<and> upper ''msft'' = ''MSFT''
   \<and> fst (add_stock halted pair ''msft'' 4 quiet) = pair
   \<and> files (snd (add_stock halted pair ''msft'' 4 quiet)) = files quiet
   \<and> last (trace (snd (add_stock halted pair ''msft'' 4 quiet))) = Print (FailedToFetch ''MSFT'')
   \<and> count_list (trace (snd (add_stock halted pair ''msft'' 4 quiet))) (Write PORTFOLIO_FILE) = 0
   \<and> fst (balance_loop halted
            [(''MSFT'', \<lparr>quantity = 2, purchase_price = 300\<rparr>),
             (''AAPL'', \<lparr>quantity = 5, purchase_price = 100\<rparr>)] 0 quiet) = 550
   \<and> map Stock (fst (view_loop halted
            [(''MSFT'', \<lparr>quantity = 2, purchase_price = 300\<rparr>),
             (''AAPL'', \<lparr>quantity = 5, purchase_price = 100\<rparr>)] [] quiet)) = [''AAPL'']"
  using zero_price_is_failure [where src = halted and w = quiet and s = "''MSFT''"
      and symbol = "''msft''" and p = pair and qty = 4
      and h = "\<lparr>quantity = 2, purchase_price = 300\<rparr>"
      and rest = "[(''AAPL'', \<lparr>quantity = 5, purchase_price = 100\<rparr>)]"
      and bal = 0 and data = "[]"]
  unfolding add_msft_halted balance_halted view_halted
  by (simp add: sample_defs halted_def loop_defs)

subsection \<open>Viewing the portfolio\<close>

text \<open>
  C9. \<open>view_portfolio\<close> returns the portfolio it was given, leaves the portfolio file
  as it was and adds no write of that file to the trace. For a portfolio with holdings
  the trace grows by exactly: the announcement, the error lines of the lookups, the
  heading, the table, the total, which is the rounded \<open>total_balance\<close> stored in the
  portfolio and not a new sum, and the export question, followed by the export when the
  answer is yes. For a portfolio without holdings the only effect is the line "Your
  portfolio is empty.": no lookup, no question, no write. In the sample the stored balance
  is 1100 while the holdings are worth 770 at the current prices, and 1100 is shown.
\<close>

theorem view_portfolio_only_reads:
  "fst (snd (view_portfolio src p w)) = p
   \<and> files (snd (snd (view_portfolio src p w))) PORTFOLIO_FILE = files w PORTFOLIO_FILE
   \<and> count_list (trace (snd (snd (view_portfolio src p w)))) (Write PORTFOLIO_FILE) =
       count_list (trace w) (Write PORTFOLIO_FILE)
   \<and> (stocks p \<noteq> [] \<longrightarrow>
        trace (snd (snd (view_portfolio src p w))) =
          trace w @ Print FetchingRealTime # fetch_errors src (clock w) (map fst (stocks p))
          @ [Print PortfolioPerformance,
             Print (Table (valued_rows src (clock w) (stocks p))),
             Print (TotalValue (round2 (total_balance p))),
             Ask ExportPrompt]
          @ export_events (stdin w))
   \<and> (stocks p = [] \<longrightarrow>
        view_portfolio src p w = (None, p, w\<lparr>trace := trace w @ [Print PortfolioEmpty]\<rparr>))"
proof (cases "stocks p = []")
  case True
  then show ?thesis by (simp add: view_portfolio_empty)
next
  case False
  have "count_list (export_events (stdin w)) (Write PORTFOLIO_FILE) = 0"
    using paths_differ by (simp add: export_events_def split: list.splits)
  with False show ?thesis
    by (simp add: view_portfolio_nonempty fetch_errors_no_write)
qed

theorem view_portfolio_only_reads_witness:
  "stocks pair \<noteq> []
   \<and> fst (snd (view_portfolio flat pair (typed [''no'']))) = pair
   \<and> files (snd (snd (view_portfolio flat pair (typed [''no''])))) PORTFOLIO_FILE = None
   \<and> count_list (trace (snd (snd (view_portfolio flat pair (typed [''no''])))))
         (Write PORTFOLIO_FILE) = 0
   \<and> Print (TotalValue 1100) \<in> set (trace (snd (snd (view_portfolio flat pair (typed [''no''])))))
   \<and> round2 (holdings_value flat 0 (stocks pair)) = 770
   \<and> stocks nothing = []
   \<and> view_portfolio flat nothing quiet = (None, nothing, quiet\<lparr>trace := [Print PortfolioEmpty]\<rparr>)"
  using view_portfolio_only_reads [of flat pair "typed [''no'']"]
    view_portfolio_only_reads [of flat nothing quiet]
  unfolding view_pair
  by (simp add: sample_defs typed_def)




subsection \<open>The shell\<close>

text \<open>
  C3, as the spec states it, fails: the shell accepts any integer. Choosing 1 and
  typing the quantity \<^verbatim>\<open>-5\<close> creates, and saves, a holding of \<open>-5\<close> shares.
\<close>

theorem negative_quantity_counterexample:
  "main flat (typed [''1'', ''aapl'', ''-5'', ''4'']) =
     (None,
      \<lparr>files = [PORTFOLIO_FILE \<mapsto>
                 Json \<lparr>stocks = [(''AAPL'', \<lparr>quantity = - 5, purchase_price = 110\<rparr>)],
                       total_balance = - 550\<rparr>],
       trace = [Print Menu, Ask ChoicePrompt, Ask SymbolPrompt, Ask QuantityPrompt,
                Print (AddedShares (- 5) ''AAPL'' 110), Write PORTFOLIO_FILE,
                Print Menu, Ask ChoicePrompt, Print Goodbye],
       clock = 2, stdin = []\<rparr>)"
proof -
  have l: "load_portfolio (typed [''1'', ''aapl'', ''-5'', ''4'']) = Inr nothing"
    by (simp add: load_portfolio_def typed_def nothing_def)
  have m: "main_loop flat nothing (typed [''1'', ''aapl'', ''-5'', ''4'']) =
     (None,
      \<lparr>stocks = [(''AAPL'', \<lparr>quantity = - 5, purchase_price = 110\<rparr>)], total_balance = - 550\<rparr>,
      \<lparr>files = [PORTFOLIO_FILE \<mapsto>
                 Json \<lparr>stocks = [(''AAPL'', \<lparr>quantity = - 5, purchase_price = 110\<rparr>)],
                       total_balance = - 550\<rparr>],
       trace = [Print Menu, Ask ChoicePrompt, Ask SymbolPrompt, Ask QuantityPrompt,
                Print (AddedShares (- 5) ''AAPL'' 110), Write PORTFOLIO_FILE,
                Print Menu, Ask ChoicePrompt, Print Goodbye],
       clock = 2, stdin = []\<rparr>)"
    apply (subst main_loop.simps)
    apply (simp only: pass_add_negative prod.case outcome.case)
    apply (subst main_loop.simps)
    apply (simp add: pass_exit)
    done
  show ?thesis
    by (simp add: main_def l m)
qed


text \<open>
  C3, amended. The only check the shell makes is that the quantity line is an integer
  for \<^verbatim>\<open>int()\<close>. When it is not, the shell prints "Invalid input. Please try again.",
  does not call \<open>add_stock\<close>, and the portfolio is unchanged. When it is, the parsed
  integer goes to \<open>add_stock\<close> with the upper-cased symbol, whatever its sign, and where
  every quantity then held converts to a float the pass goes on with what \<open>add_stock\<close>
  returns. The sample lines: \<^verbatim>\<open>abc\<close>, and a \<^verbatim>\<open>5\<close> behind the separator \<^verbatim>\<open>0x1F\<close>, are
  refused; \<^verbatim>\<open>-5\<close> and \<^verbatim>\<open>0\<close> are passed on.
\<close>

theorem shell_passes_parsed_quantity:
  assumes "stdin w = choice # name # amount # rest" and "strip choice = ''1''"
  shows "case py_int amount of
           None \<Rightarrow> menu_pass src p w = (Continue, p, print InvalidInput (asked_to_add w))
         | Some qty \<Rightarrow>
             floatable (fst (add_stock src p (upper (strip name)) qty (asked_to_add w))) \<longrightarrow>
             menu_pass src p w =
               (Continue, add_stock src p (upper (strip name)) qty (asked_to_add w))"
  using assms
  by (simp add: menu_pass_def py_input_def print_def asked_to_add_def Let_def
      split: option.splits prod.splits)

theorem shell_passes_parsed_quantity_witness:
  "stdin (typed [''1'', ''aapl'', ''abc'']) = [''1'', ''aapl'', ''abc'']
   \<and> strip ''1'' = ''1''
   \<and> py_int ''abc'' = None
   \<and> menu_pass flat nothing (typed [''1'', ''aapl'', ''abc'']) =
       (Continue, nothing, print InvalidInput (asked_to_add (typed [''1'', ''aapl'', ''abc''])))
   \<and> py_int [CHR 0x1F, CHR ''5''] = None
   \<and> menu_pass flat nothing (typed [''1'', ''aapl'', [CHR 0x1F, CHR ''5'']]) =
       (Continue, nothing,
        print InvalidInput (asked_to_add (typed [''1'', ''aapl'', [CHR 0x1F, CHR ''5'']])))
   \<and> py_int ''-5'' = Some (- 5)
   \<and> floatable (fst (add_stock flat nothing ''AAPL'' (- 5)
                        (asked_to_add (typed [''1'', ''aapl'', ''-5'', ''4'']))))
   \<and> menu_pass flat nothing (typed [''1'', ''aapl'', ''-5'', ''4'']) =
       (Continue, add_stock flat nothing ''AAPL'' (- 5)
                    (asked_to_add (typed [''1'', ''aapl'', ''-5'', ''4''])))
   \<and> py_int ''0'' = Some 0"
proof -
  have s1: "stdin (typed [''1'', ''aapl'', ''abc'']) = ''1'' # ''aapl'' # ''abc'' # []"
    and s2: "stdin (typed [''1'', ''aapl'', ''-5'', ''4'']) = ''1'' # ''aapl'' # ''-5'' # [''4'']"
    and s3: "stdin (typed [''1'', ''aapl'', [CHR 0x1F, CHR ''5'']]) =
             ''1'' # ''aapl'' # [CHR 0x1F, CHR ''5''] # []"
    by (simp_all add: typed_def)
  have c: "strip ''1'' = ''1''"
    by (simp add: text_defs)
  have i: "py_int ''abc'' = None" "py_int ''-5'' = Some (- 5)" "py_int ''0'' = Some 0"
    "py_int [CHR 0x1F, CHR ''5''] = None"
    by (simp_all add: text_defs)
  have u: "upper (strip ''aapl'') = ''AAPL''"
    by (simp add: text_defs)
  have f: "floatable (fst (add_stock flat nothing ''AAPL'' (- 5)
                        (asked_to_add (typed [''1'', ''aapl'', ''-5'', ''4'']))))"
    by (simp add: run_defs sample_defs typed_def asked_to_add_def floatable_def fits_float_def)
  from shell_passes_parsed_quantity [OF s1 c, of flat nothing]
    shell_passes_parsed_quantity [OF s2 c, of flat nothing]
    shell_passes_parsed_quantity [OF s3 c, of flat nothing]
  show ?thesis
    by (simp add: s1 c i u f)
qed

end
